theory Spec2Isabelle
  imports Complex_Main
begin

section \<open>Python values\<close>

text \<open>
  The tables of \<^verbatim>\<open>backend/main.py\<close> are Python literals: lists of dicts whose
  values are strings, integers, floats, booleans or \<^verbatim>\<open>None\<close>. A dict is kept as
  the list of its items in definition order, which is the order Python iterates and
  serialises them in. A float is represented by the decimal its literal is written as
  (\<^verbatim>\<open>4.2\<close> is \<open>42 / 10\<close>), which is also what the JSON encoder prints for it.
\<close>

datatype pyval = PNone | PBool bool | PInt int | PFloat rat | PStr string

type_synonym pydict = "(string \<times> pyval) list"

datatype py_error = KeyError string

text \<open>What a handler returns: a list of dicts (a JSON array) or one dict (a JSON object).\<close>

datatype payload = JArray "pydict list" | JObject pydict

text \<open>\<^verbatim>\<open>k in d\<close> and \<^verbatim>\<open>d[k]\<close>; the latter raises \<^verbatim>\<open>KeyError\<close> on a missing key.\<close>

definition dict_contains :: "(string \<times> 'v) list \<Rightarrow> string \<Rightarrow> bool" where
  "dict_contains d k = (k \<in> set (map fst d))"

definition dict_getitem :: "(string \<times> 'v) list \<Rightarrow> string \<Rightarrow> py_error + 'v" where
  "dict_getitem d k = (case map_of d k of None \<Rightarrow> Inl (KeyError k) | Some v \<Rightarrow> Inr v)"

section \<open>Module globals\<close>

text \<open>
  The two module-level variables. They are ordinary mutable Python objects, so every
  handler takes the globals and returns them, and what a handler leaves unchanged is a
  theorem rather than an assumption.
\<close>

record globals =
  patients_data :: "pydict list"
  metrics_data :: "(string \<times> pydict list) list"

definition module_globals :: globals where
  "module_globals = \<lparr>
     patients_data = [
       [(''id'', PStr ''Patient_001''), (''name'', PStr ''John Doe''), (''age'', PInt 65),
        (''status'', PStr ''completed''), (''inferenceTime'', PFloat (42 / 10)),
        (''result'', PStr ''Success''), (''date'', PStr ''2026-02-28'')],
       [(''id'', PStr ''Patient_002''), (''name'', PStr ''Jane Smith''), (''age'', PInt 72),
        (''status'', PStr ''completed''), (''inferenceTime'', PFloat (38 / 10)),
        (''result'', PStr ''Success''), (''date'', PStr ''2026-02-28'')],
       [(''id'', PStr ''Patient_003''), (''name'', PStr ''Robert Chen''), (''age'', PInt 58),
        (''status'', PStr ''processing''), (''inferenceTime'', PNone),
        (''result'', PStr ''Processing''), (''date'', PStr ''2026-03-01'')],
       [(''id'', PStr ''Patient_004''), (''name'', PStr ''Maria Garcia''), (''age'', PInt 61),
        (''status'', PStr ''completed''), (''inferenceTime'', PFloat (51 / 10)),
        (''result'', PStr ''Failed''), (''date'', PStr ''2026-02-27'')],
       [(''id'', PStr ''Patient_005''), (''name'', PStr ''David Kim''), (''age'', PInt 55),
        (''status'', PStr ''completed''), (''inferenceTime'', PFloat (35 / 10)),
        (''result'', PStr ''Success''), (''date'', PStr ''2026-02-27'')],
       [(''id'', PStr ''Patient_006''), (''name'', PStr ''Sarah Wilson''), (''age'', PInt 68),
        (''status'', PStr ''queued''), (''inferenceTime'', PNone),
        (''result'', PStr ''Queued''), (''date'', PStr ''2026-03-01'')]],
     metrics_data = [
       (''Patient_001'',
        [[(''metric'', PStr ''clDice''), (''value'', PFloat (92 / 100))],
         [(''metric'', PStr ''Dice Score''), (''value'', PFloat (88 / 100))],
         [(''metric'', PStr ''IoU''), (''value'', PFloat (81 / 100))]]),
       (''Patient_002'',
        [[(''metric'', PStr ''clDice''), (''value'', PFloat (89 / 100))],
         [(''metric'', PStr ''Dice Score''), (''value'', PFloat (85 / 100))],
         [(''metric'', PStr ''IoU''), (''value'', PFloat (78 / 100))]]),
       (''Patient_004'',
        [[(''metric'', PStr ''clDice''), (''value'', PFloat (45 / 100))],
         [(''metric'', PStr ''Dice Score''), (''value'', PFloat (38 / 100))],
         [(''metric'', PStr ''IoU''), (''value'', PFloat (30 / 100))]]),
       (''Patient_005'',
        [[(''metric'', PStr ''clDice''), (''value'', PFloat (95 / 100))],
         [(''metric'', PStr ''Dice Score''), (''value'', PFloat (91 / 100))],
         [(''metric'', PStr ''IoU''), (''value'', PFloat (85 / 100))]])]
   \<rparr>"

section \<open>Handlers\<close>

type_synonym response = "py_error + payload"

definition root_handler :: "globals \<Rightarrow> response \<times> globals" where
  "root_handler g =
     (Inr (JObject [(''message'', PStr ''VascularAI API v1.2.0''),
                    (''status'', PStr ''online'')]), g)"

definition get_patients :: "globals \<Rightarrow> response \<times> globals" where
  "get_patients g = (Inr (JArray (patients_data g)), g)"

definition get_metrics :: "globals \<Rightarrow> string \<Rightarrow> response \<times> globals" where
  "get_metrics g patient_id =
     (if dict_contains (metrics_data g) patient_id
      then (case dict_getitem (metrics_data g) patient_id of
              Inl e \<Rightarrow> (Inl e, g)
            | Inr entries \<Rightarrow> (Inr (JArray entries), g))
      else (Inr (JObject [(''error'', PStr ''Patient not found'')]), g))"

definition get_status :: "globals \<Rightarrow> response \<times> globals" where
  "get_status g =
     (Inr (JObject [(''patientId'', PStr ''Patient_003''),
                    (''progress'', PInt 80),
                    (''stage'', PStr ''Vessel Segmentation''),
                    (''message'', PStr ''Processing Patient_003... 80%'')]), g)"

definition get_server_status :: "globals \<Rightarrow> response \<times> globals" where
  "get_server_status g =
     (Inr (JObject [(''online'', PBool True),
                    (''version'', PStr ''v1.2.0''),
                    (''gpu'', PStr ''Apple M2 Pro''),
                    (''modelVersion'', PStr ''VascularNet v2.1'')]), g)"

text \<open>
  The five routes registered with \<^verbatim>\<open>@app.get\<close>, and a process lifetime as the
  sequence of requests it serves, each handler running on the globals the previous one
  left.
\<close>

datatype request = GetRoot | GetPatients | GetMetrics string | GetStatus | GetServer

fun dispatch :: "request \<Rightarrow> globals \<Rightarrow> response \<times> globals" where
  "dispatch GetRoot g = root_handler g"
| "dispatch GetPatients g = get_patients g"
| "dispatch (GetMetrics patient_id) g = get_metrics g patient_id"
| "dispatch GetStatus g = get_status g"
| "dispatch GetServer g = get_server_status g"

fun serve :: "request list \<Rightarrow> globals \<Rightarrow> response list \<times> globals" where
  "serve [] g = ([], g)"
| "serve (r # rs) g =
     (case dispatch r g of (a, g') \<Rightarrow>
        (case serve rs g' of (as, g'') \<Rightarrow> (a # as, g'')))"

section \<open>Vocabulary of the properties\<close>

text \<open>The \<^verbatim>\<open>id\<close> of a patient record, when it has one that is a string.\<close>

definition record_id :: "pydict \<Rightarrow> string option" where
  "record_id r = (case map_of r ''id'' of Some (PStr s) \<Rightarrow> Some s | _ \<Rightarrow> None)"

definition patient_ids :: "globals \<Rightarrow> string list" where
  "patient_ids g = List.map_filter record_id (patients_data g)"

definition completed_ids :: "globals \<Rightarrow> string list" where
  "completed_ids g =
     List.map_filter record_id
       (filter (\<lambda>r. map_of r ''status'' = Some (PStr ''completed'')) (patients_data g))"

definition metrics_keys :: "globals \<Rightarrow> string list" where
  "metrics_keys g = map fst (metrics_data g)"

text \<open>Whether a value is a float, as opposed to \<^verbatim>\<open>None\<close> or anything else.\<close>

fun is_float :: "pyval \<Rightarrow> bool" where
  "is_float (PFloat t) = True"
| "is_float v = False"

definition not_found :: payload where
  "not_found = JObject [(''error'', PStr ''Patient not found'')]"

section \<open>No handler writes to the globals\<close>

lemma get_metrics_globals: "snd (get_metrics g p) = g"
  by (simp add: get_metrics_def split: sum.split)

lemma dispatch_globals: "snd (dispatch r g) = g"
  by (cases r)
     (simp_all add: root_handler_def get_patients_def get_metrics_globals get_status_def
        get_server_status_def)

lemma serve_globals: "snd (serve rs g) = g"
proof (induction rs arbitrary: g)
  case Nil
  show ?case by simp
next
  case (Cons r rs)
  have "snd (dispatch r g) = g" by (rule dispatch_globals)
  moreover have "snd (serve rs g) = g" by (rule Cons.IH)
  ultimately show ?case by (simp split: prod.split) (metis snd_conv)
qed

section \<open>The tables as literals\<close>

lemma metrics_keys_literal:
  "metrics_keys module_globals = [''Patient_001'', ''Patient_002'', ''Patient_004'', ''Patient_005'']"
  by (simp add: metrics_keys_def module_globals_def)

lemma patient_ids_literal:
  "patient_ids module_globals =
     [''Patient_001'', ''Patient_002'', ''Patient_003'', ''Patient_004'', ''Patient_005'',
      ''Patient_006'']"
  by (simp add: patient_ids_def module_globals_def record_id_def)

lemma completed_ids_literal:
  "completed_ids module_globals =
     [''Patient_001'', ''Patient_002'', ''Patient_004'', ''Patient_005'']"
  by (simp add: completed_ids_def module_globals_def record_id_def)

lemma metrics_data_entries_nonempty:
  "(p, es) \<in> set (metrics_data module_globals) \<Longrightarrow> es \<noteq> []"
  by (auto simp: module_globals_def)

section \<open>Metrics lookup\<close>

text \<open>
  C1. For every patient id that is a key of the metrics table, \<open>get_metrics\<close> returns
  exactly the list of entries registered for that key in the table, as it stands there:
  same entries, same order, nothing dropped or changed; and it leaves the globals as
  they were.
\<close>

theorem get_metrics_registered:
  assumes "(p, es) \<in> set (metrics_data module_globals)"
  shows "get_metrics module_globals p = (Inr (JArray es), module_globals)"
proof -
  have d: "distinct (map fst (metrics_data module_globals))"
    by (simp add: module_globals_def)
  from assms d have m: "map_of (metrics_data module_globals) p = Some es"
    by simp
  from assms have k: "dict_contains (metrics_data module_globals) p"
    unfolding dict_contains_def by force
  show ?thesis
    by (simp add: get_metrics_def k dict_getitem_def m)
qed

theorem get_metrics_registered_witness:
  "(''Patient_004'',
      [[(''metric'', PStr ''clDice''), (''value'', PFloat (45 / 100))],
       [(''metric'', PStr ''Dice Score''), (''value'', PFloat (38 / 100))],
       [(''metric'', PStr ''IoU''), (''value'', PFloat (30 / 100))]])
     \<in> set (metrics_data module_globals) \<and>
   get_metrics module_globals ''Patient_004'' =
     (Inr (JArray
        [[(''metric'', PStr ''clDice''), (''value'', PFloat (45 / 100))],
         [(''metric'', PStr ''Dice Score''), (''value'', PFloat (38 / 100))],
         [(''metric'', PStr ''IoU''), (''value'', PFloat (30 / 100))]]), module_globals)"
proof -
  have h: "(''Patient_004'',
      [[(''metric'', PStr ''clDice''), (''value'', PFloat (45 / 100))],
       [(''metric'', PStr ''Dice Score''), (''value'', PFloat (38 / 100))],
       [(''metric'', PStr ''IoU''), (''value'', PFloat (30 / 100))]])
     \<in> set (metrics_data module_globals)"
    by (simp add: module_globals_def)
  from h get_metrics_registered [OF h] show ?thesis by simp
qed

text \<open>
  C2. For every string that is not a key of the metrics table, \<open>get_metrics\<close> returns
  the payload \<^verbatim>\<open>{"error": "Patient not found"}\<close>. That payload is returned for no
  other input, and no input makes the handler raise (the \<^verbatim>\<open>KeyError\<close> of the
  subscript is unreachable behind the membership test). The instances are an id of the
  patient list that has no metrics, the empty string and a malformed id.
\<close>

theorem get_metrics_unknown_patient:
  "(s \<notin> set (metrics_keys module_globals) \<longrightarrow>
      get_metrics module_globals s = (Inr not_found, module_globals)) \<and>
   (fst (get_metrics module_globals s) = Inr not_found) =
      (s \<notin> set (metrics_keys module_globals)) \<and>
   (\<forall>e. fst (get_metrics module_globals s) \<noteq> Inl e)"
proof (cases "dict_contains (metrics_data module_globals) s")
  case True
  then obtain es where m: "map_of (metrics_data module_globals) s = Some es"
    unfolding dict_contains_def by (metis map_of_eq_None_iff not_None_eq set_map)
  from True have k: "s \<in> set (metrics_keys module_globals)"
    by (simp add: dict_contains_def metrics_keys_def)
  show ?thesis
    by (simp add: get_metrics_def True dict_getitem_def m k not_found_def)
next
  case False
  then have k: "s \<notin> set (metrics_keys module_globals)"
    by (simp add: dict_contains_def metrics_keys_def)
  show ?thesis
    by (simp add: get_metrics_def False k not_found_def)
qed

theorem get_metrics_unknown_patient_witness:
  "''Patient_003'' \<in> set (patient_ids module_globals) \<and>
   ''Patient_003'' \<notin> set (metrics_keys module_globals) \<and>
   get_metrics module_globals ''Patient_003'' =
     (Inr (JObject [(''error'', PStr ''Patient not found'')]), module_globals) \<and>
   '''' \<notin> set (metrics_keys module_globals) \<and>
   get_metrics module_globals '''' =
     (Inr (JObject [(''error'', PStr ''Patient not found'')]), module_globals) \<and>
   ''patient_001 '' \<notin> set (metrics_keys module_globals) \<and>
   get_metrics module_globals ''patient_001 '' =
     (Inr (JObject [(''error'', PStr ''Patient not found'')]), module_globals) \<and>
   ''Patient_001'' \<in> set (metrics_keys module_globals) \<and>
   fst (get_metrics module_globals ''Patient_001'') \<noteq>
     Inr (JObject [(''error'', PStr ''Patient not found'')])"
  using get_metrics_unknown_patient [of "''Patient_003''"]
    get_metrics_unknown_patient [of "''''"]
    get_metrics_unknown_patient [of "''patient_001 ''"]
    get_metrics_unknown_patient [of "''Patient_001''"]
  by (simp add: metrics_keys_literal patient_ids_literal not_found_def)

section \<open>The patient list\<close>

text \<open>
  C3. \<open>get_patients\<close> returns the same list on every call: after any sequence of
  requests served since start-up it returns the patient list of the module as written,
  it leaves the globals unchanged, and two calls in a row give the same answer twice.
  That list has 6 records, with ids \<^verbatim>\<open>Patient_001\<close> to \<^verbatim>\<open>Patient_006\<close> in
  definition order, and its first record has id \<^verbatim>\<open>Patient_001\<close>, status
  \<^verbatim>\<open>completed\<close> and inferenceTime 4.2.
\<close>

theorem get_patients_same_six_records:
  "fst (get_patients (snd (serve rs module_globals))) =
     Inr (JArray (patients_data module_globals)) \<and>
   snd (get_patients g) = g \<and>
   fst (serve [GetPatients, GetPatients] module_globals) =
     [Inr (JArray (patients_data module_globals)), Inr (JArray (patients_data module_globals))] \<and>
   length (patients_data module_globals) = 6 \<and>
   map record_id (patients_data module_globals) =
     [Some ''Patient_001'', Some ''Patient_002'', Some ''Patient_003'',
      Some ''Patient_004'', Some ''Patient_005'', Some ''Patient_006''] \<and>
   map_of (hd (patients_data module_globals)) ''id'' = Some (PStr ''Patient_001'') \<and>
   map_of (hd (patients_data module_globals)) ''status'' = Some (PStr ''completed'') \<and>
   map_of (hd (patients_data module_globals)) ''inferenceTime'' = Some (PFloat (42 / 10))"
proof -
  have "fst (get_patients (snd (serve rs module_globals))) =
      Inr (JArray (patients_data module_globals))"
    by (simp add: serve_globals get_patients_def)
  moreover have "snd (get_patients g) = g"
    by (simp add: get_patients_def)
  moreover have "fst (serve [GetPatients, GetPatients] module_globals) =
     [Inr (JArray (patients_data module_globals)), Inr (JArray (patients_data module_globals))]"
    by (simp add: get_patients_def)
  moreover have "length (patients_data module_globals) = 6"
    by (simp add: module_globals_def)
  moreover have "map record_id (patients_data module_globals) =
     [Some ''Patient_001'', Some ''Patient_002'', Some ''Patient_003'',
      Some ''Patient_004'', Some ''Patient_005'', Some ''Patient_006'']"
    by (simp add: module_globals_def record_id_def)
  moreover have "map_of (hd (patients_data module_globals)) ''id'' = Some (PStr ''Patient_001'')"
    "map_of (hd (patients_data module_globals)) ''status'' = Some (PStr ''completed'')"
    "map_of (hd (patients_data module_globals)) ''inferenceTime'' = Some (PFloat (42 / 10))"
    by (simp_all add: module_globals_def)
  ultimately show ?thesis by blast
qed

section \<open>The status endpoints\<close>

text \<open>
  C4. \<open>get_status\<close> returns exactly the object with \<^verbatim>\<open>patientId\<close>
  \<^verbatim>\<open>Patient_003\<close>, \<^verbatim>\<open>progress\<close> 80, \<^verbatim>\<open>stage\<close> \<^verbatim>\<open>Vessel Segmentation\<close> and
  \<^verbatim>\<open>message\<close> \<^verbatim>\<open>Processing Patient_003... 80%\<close>, whatever the globals hold: replacing
  the patient list or the metrics table by any other value does not change the answer.
\<close>

theorem get_status_fixed_payload:
  "get_status g =
     (Inr (JObject [(''patientId'', PStr ''Patient_003''),
                    (''progress'', PInt 80),
                    (''stage'', PStr ''Vessel Segmentation''),
                    (''message'', PStr ''Processing Patient_003... 80%'')]), g) \<and>
   fst (get_status (g\<lparr>patients_data := ps\<rparr>)) = fst (get_status g) \<and>
   fst (get_status (g\<lparr>metrics_data := ms\<rparr>)) = fst (get_status g)"
  by (simp add: get_status_def)

text \<open>
  C5. \<open>get_status\<close> and \<open>get_server_status\<close> are constants: their payloads do not
  depend on the globals they run on, two consecutive calls return the same payload
  twice, and so do two calls made after any two request histories.
\<close>

theorem status_endpoints_deterministic:
  "fst (get_status g) = fst (get_status g') \<and>
   fst (get_server_status g) = fst (get_server_status g') \<and>
   fst (serve [GetStatus, GetStatus] g) = [fst (get_status g), fst (get_status g)] \<and>
   fst (serve [GetServer, GetServer] g) = [fst (get_server_status g), fst (get_server_status g)] \<and>
   fst (dispatch GetStatus (snd (serve rs g))) = fst (dispatch GetStatus (snd (serve rs' g))) \<and>
   fst (dispatch GetServer (snd (serve rs g))) = fst (dispatch GetServer (snd (serve rs' g)))"
  by (simp add: get_status_def get_server_status_def serve_globals)

section \<open>Invariants of the tables\<close>

text \<open>
  C6. Every key of the metrics table is the id of a record of the patient list, and this
  holds after any sequence of requests served since start-up, because no handler changes
  the globals.
\<close>

theorem metrics_keys_subset_patient_ids:
  "set (metrics_keys (snd (serve rs module_globals))) \<subseteq>
     set (patient_ids (snd (serve rs module_globals))) \<and>
   snd (dispatch r g) = g \<and>
   snd (serve rs g) = g"
  by (simp add: serve_globals dispatch_globals metrics_keys_literal patient_ids_literal)

theorem metrics_keys_subset_patient_ids_witness:
  "set (metrics_keys (snd (serve [GetPatients, GetMetrics ''Patient_003'', GetStatus] module_globals)))
     \<subseteq> set (patient_ids (snd (serve [GetPatients, GetMetrics ''Patient_003'', GetStatus] module_globals))) \<and>
   ''Patient_004'' \<in> set (metrics_keys module_globals) \<and>
   ''Patient_004'' \<in> set (patient_ids module_globals) \<and>
   ''Patient_003'' \<in> set (patient_ids module_globals) \<and>
   ''Patient_003'' \<notin> set (metrics_keys module_globals)"
  using metrics_keys_subset_patient_ids
    [of "[GetPatients, GetMetrics ''Patient_003'', GetStatus]" GetRoot module_globals]
  by (simp add: metrics_keys_literal patient_ids_literal)

text \<open>
  C7. For every record of the patient list, \<^verbatim>\<open>inferenceTime\<close> is a float exactly when
  \<^verbatim>\<open>status\<close> is \<^verbatim>\<open>completed\<close>, and it is \<^verbatim>\<open>None\<close> exactly when it is not; in
  particular it is \<^verbatim>\<open>None\<close> for \<^verbatim>\<open>processing\<close> and \<^verbatim>\<open>queued\<close>.
\<close>

theorem inference_time_iff_completed:
  "\<forall>r \<in> set (patients_data module_globals).
     (case map_of r ''inferenceTime'' of None \<Rightarrow> False | Some v \<Rightarrow> is_float v) =
       (map_of r ''status'' = Some (PStr ''completed'')) \<and>
     (map_of r ''inferenceTime'' = Some PNone) =
       (map_of r ''status'' \<noteq> Some (PStr ''completed'')) \<and>
     (map_of r ''status'' = Some (PStr ''processing'') \<or>
      map_of r ''status'' = Some (PStr ''queued'') \<longrightarrow>
        map_of r ''inferenceTime'' = Some PNone)"
  by (simp add: module_globals_def)

theorem inference_time_iff_completed_witness:
  "patients_data module_globals ! 0 \<in> set (patients_data module_globals) \<and>
   map_of (patients_data module_globals ! 0) ''status'' = Some (PStr ''completed'') \<and>
   map_of (patients_data module_globals ! 0) ''inferenceTime'' = Some (PFloat (42 / 10)) \<and>
   patients_data module_globals ! 2 \<in> set (patients_data module_globals) \<and>
   map_of (patients_data module_globals ! 2) ''status'' = Some (PStr ''processing'') \<and>
   map_of (patients_data module_globals ! 2) ''inferenceTime'' = Some PNone \<and>
   patients_data module_globals ! 5 \<in> set (patients_data module_globals) \<and>
   map_of (patients_data module_globals ! 5) ''status'' = Some (PStr ''queued'') \<and>
   map_of (patients_data module_globals ! 5) ''inferenceTime'' = Some PNone"
proof -
  have m: "patients_data module_globals ! 0 \<in> set (patients_data module_globals)"
    "patients_data module_globals ! 2 \<in> set (patients_data module_globals)"
    "patients_data module_globals ! 5 \<in> set (patients_data module_globals)"
    by (simp_all add: module_globals_def)
  have s: "map_of (patients_data module_globals ! 0) ''status'' = Some (PStr ''completed'')"
    "map_of (patients_data module_globals ! 0) ''inferenceTime'' = Some (PFloat (42 / 10))"
    "map_of (patients_data module_globals ! 2) ''status'' = Some (PStr ''processing'')"
    "map_of (patients_data module_globals ! 5) ''status'' = Some (PStr ''queued'')"
    by (simp_all add: module_globals_def)
  from inference_time_iff_completed [THEN bspec, OF m(2)] s(3)
  have a: "map_of (patients_data module_globals ! 2) ''inferenceTime'' = Some PNone"
    by blast
  from inference_time_iff_completed [THEN bspec, OF m(3)] s(4)
  have b: "map_of (patients_data module_globals ! 5) ''inferenceTime'' = Some PNone"
    by blast
  from m s a b show ?thesis by blast
qed

text \<open>
  C8. The keys of the metrics table are exactly the ids of the patient records whose
  status is \<^verbatim>\<open>completed\<close> (as sets, and even as lists in definition order).
\<close>

theorem metrics_keys_eq_completed_ids:
  "set (metrics_keys module_globals) = set (completed_ids module_globals) \<and>
   metrics_keys module_globals = completed_ids module_globals"
  by (simp add: metrics_keys_literal completed_ids_literal)

text \<open>
  C9. Every key of the metrics table maps to exactly 3 entries, named \<^verbatim>\<open>clDice\<close>,
  \<^verbatim>\<open>Dice Score\<close> and \<^verbatim>\<open>IoU\<close> in that order; hence \<open>get_metrics\<close> never returns
  an empty array.
\<close>

theorem metrics_entries_shape:
  "(\<forall>(k, es) \<in> set (metrics_data module_globals).
      map (\<lambda>e. map_of e ''metric'') es =
        [Some (PStr ''clDice''), Some (PStr ''Dice Score''), Some (PStr ''IoU'')] \<and>
      length es = 3 \<and> es \<noteq> []) \<and>
   fst (get_metrics module_globals p) \<noteq> Inr (JArray [])"
proof
  show "\<forall>(k, es) \<in> set (metrics_data module_globals).
      map (\<lambda>e. map_of e ''metric'') es =
        [Some (PStr ''clDice''), Some (PStr ''Dice Score''), Some (PStr ''IoU'')] \<and>
      length es = 3 \<and> es \<noteq> []"
    by (simp add: module_globals_def)
next
  show "fst (get_metrics module_globals p) \<noteq> Inr (JArray [])"
  proof (cases "map_of (metrics_data module_globals) p")
    case None
    then have "\<not> dict_contains (metrics_data module_globals) p"
      by (simp add: dict_contains_def map_of_eq_None_iff)
    then show ?thesis by (simp add: get_metrics_def)
  next
    case (Some es)
    then have "(p, es) \<in> set (metrics_data module_globals)"
      by (rule map_of_SomeD)
    then have "es \<noteq> []" by (rule metrics_data_entries_nonempty)
    with Some show ?thesis
      by (simp add: get_metrics_def dict_getitem_def)
  qed
qed

theorem metrics_entries_shape_witness:
  "(''Patient_002'',
      [[(''metric'', PStr ''clDice''), (''value'', PFloat (89 / 100))],
       [(''metric'', PStr ''Dice Score''), (''value'', PFloat (85 / 100))],
       [(''metric'', PStr ''IoU''), (''value'', PFloat (78 / 100))]])
     \<in> set (metrics_data module_globals) \<and>
   map (\<lambda>e. map_of e ''metric'')
      [[(''metric'', PStr ''clDice''), (''value'', PFloat (89 / 100))],
       [(''metric'', PStr ''Dice Score''), (''value'', PFloat (85 / 100))],
       [(''metric'', PStr ''IoU''), (''value'', PFloat (78 / 100))]] =
     [Some (PStr ''clDice''), Some (PStr ''Dice Score''), Some (PStr ''IoU'')] \<and>
   fst (get_metrics module_globals ''Patient_002'') \<noteq> Inr (JArray []) \<and>
   fst (get_metrics module_globals ''Patient_003'') \<noteq> Inr (JArray [])"
proof -
  have h: "(''Patient_002'',
      [[(''metric'', PStr ''clDice''), (''value'', PFloat (89 / 100))],
       [(''metric'', PStr ''Dice Score''), (''value'', PFloat (85 / 100))],
       [(''metric'', PStr ''IoU''), (''value'', PFloat (78 / 100))]])
     \<in> set (metrics_data module_globals)"
    by (simp add: module_globals_def)
  from metrics_entries_shape [of "''Patient_002''", THEN conjunct1, THEN bspec, OF h]
    metrics_entries_shape [of "''Patient_002''", THEN conjunct2]
    metrics_entries_shape [of "''Patient_003''", THEN conjunct2] h
  show ?thesis by simp
qed

text \<open>
  C10. Every \<^verbatim>\<open>value\<close> of every entry of the metrics table is a float whose decimal
  literal lies between 0 and 1 inclusive.
\<close>

theorem metric_values_in_unit_interval:
  "\<forall>(k, es) \<in> set (metrics_data module_globals). \<forall>e \<in> set es.
     (case map_of e ''value'' of
        Some (PFloat v) \<Rightarrow> 0 \<le> v \<and> v \<le> 1
      | _ \<Rightarrow> False)"
  by (simp add: module_globals_def)

theorem metric_values_in_unit_interval_witness:
  "(''Patient_004'',
      [[(''metric'', PStr ''clDice''), (''value'', PFloat (45 / 100))],
       [(''metric'', PStr ''Dice Score''), (''value'', PFloat (38 / 100))],
       [(''metric'', PStr ''IoU''), (''value'', PFloat (30 / 100))]])
     \<in> set (metrics_data module_globals) \<and>
   [(''metric'', PStr ''IoU''), (''value'', PFloat (30 / 100))] \<in>
     set [[(''metric'', PStr ''clDice''), (''value'', PFloat (45 / 100))],
          [(''metric'', PStr ''Dice Score''), (''value'', PFloat (38 / 100))],
          [(''metric'', PStr ''IoU''), (''value'', PFloat (30 / 100))]] \<and>
   map_of [(''metric'', PStr ''IoU''), (''value'', PFloat (30 / 100))] ''value'' =
     Some (PFloat (30 / 100)) \<and>
   (0::rat) \<le> 30 / 100 \<and> (30 / 100 :: rat) \<le> 1"
proof -
  have h: "(''Patient_004'',
      [[(''metric'', PStr ''clDice''), (''value'', PFloat (45 / 100))],
       [(''metric'', PStr ''Dice Score''), (''value'', PFloat (38 / 100))],
       [(''metric'', PStr ''IoU''), (''value'', PFloat (30 / 100))]])
     \<in> set (metrics_data module_globals)"
    by (simp add: module_globals_def)
  have e: "[(''metric'', PStr ''IoU''), (''value'', PFloat (30 / 100))] \<in>
     set [[(''metric'', PStr ''clDice''), (''value'', PFloat (45 / 100))],
          [(''metric'', PStr ''Dice Score''), (''value'', PFloat (38 / 100))],
          [(''metric'', PStr ''IoU''), (''value'', PFloat (30 / 100))]]"
    by simp
  have v: "map_of [(''metric'', PStr ''IoU''), (''value'', PFloat (30 / 100))] ''value'' =
     Some (PFloat (30 / 100))"
    by simp
  from metric_values_in_unit_interval [THEN bspec, OF h]
  have "\<forall>e \<in> set [[(''metric'', PStr ''clDice''), (''value'', PFloat (45 / 100))],
          [(''metric'', PStr ''Dice Score''), (''value'', PFloat (38 / 100))],
          [(''metric'', PStr ''IoU''), (''value'', PFloat (30 / 100))]].
     (case map_of e ''value'' of
        Some (PFloat v) \<Rightarrow> 0 \<le> v \<and> v \<le> 1
      | _ \<Rightarrow> False)"
    by simp
  from this [THEN bspec, OF e] have "(0::rat) \<le> 30 / 100 \<and> (30 / 100 :: rat) \<le> 1"
    unfolding v by simp
  with h e v show ?thesis by blast
qed

end
